theory Spec2Isabelle
  imports Complex_Main
begin

section \<open>Data model of \<open>scripts/todoist_client.py\<close>\<close>

text \<open>
  Python values that flow through the client are JSON-shaped: \<open>None\<close>, booleans,
  numbers, strings, lists and dicts. \<open>JNull\<close> is Python's \<open>None\<close> (a default
  argument \<open>labels=None\<close> and an explicit \<open>None\<close> are the same value). A dict is an
  association list in insertion order with distinct keys. Floats are represented by
  reals; only their truth value is ever inspected.
\<close>

datatype json =
    JNull
  | JBool bool
  | JInt int
  | JFloat real
  | JString string
  | JArray "json list"
  | JObject "(string \<times> json) list"

text \<open>Python truthiness, as used by \<open>if labels:\<close> and \<open>if project_id\<close>.\<close>

fun truthy :: "json \<Rightarrow> bool" where
  "truthy JNull = False"
| "truthy (JBool b) = b"
| "truthy (JInt n) = (n \<noteq> 0)"
| "truthy (JFloat x) = (x \<noteq> 0)"
| "truthy (JString s) = (s \<noteq> [])"
| "truthy (JArray xs) = (xs \<noteq> [])"
| "truthy (JObject kvs) = (kvs \<noteq> [])"

text \<open>An optional command-line flag: \<open>None\<close> when absent, a string otherwise.\<close>

fun of_flag :: "string option \<Rightarrow> json" where
  "of_flag None = JNull"
| "of_flag (Some s) = JString s"

text \<open>An f-string \<open>{x}\<close> of an optional string: \<open>None\<close> prints as \<open>None\<close>.\<close>

fun fmt :: "string option \<Rightarrow> string" where
  "fmt None = ''None''"
| "fmt (Some s) = s"

datatype http_method = GET | POST | DELETE

record request =
  req_method :: http_method
  req_url :: string
  req_headers :: "(string \<times> string) list"
  req_params :: "(string \<times> json) list"
  req_json :: "(string \<times> json) list option"

record response =
  status_code :: int
  body :: string

text \<open>
  What \<open>requests.get/post/delete\<close> gives back: a response, or no response at all
  (the library raises a connection error).
\<close>

datatype reply = Reply response | NoReply

text \<open>An entry of the file system at a path.\<close>

datatype fs_entry =
    Absent
  | Unreadable  \<comment> \<open>exists, but \<open>open\<close> or \<open>read\<close> raises\<close>
  | File string

datatype error =
    SysExit int           \<comment> \<open>\<open>sys.exit(n)\<close>\<close>
  | SystemExit string     \<comment> \<open>\<open>raise SystemExit(msg)\<close>\<close>
  | ValueError string
  | HTTPError response    \<comment> \<open>raised by \<open>raise_for_status\<close>, carries the response\<close>
  | JSONDecodeError
  | OSError
  | AttributeError
  | ConnectionError

text \<open>
  Everything outside the process: the environment variables, the file system, the JSON
  decoder (\<open>None\<close> when the text is not JSON) and the remote server, whose answer may
  depend on the requests it has already received.
\<close>

record world =
  environ :: "string \<Rightarrow> string option"
  files :: "string \<Rightarrow> fs_entry"
  json_loads :: "string \<Rightarrow> json option"
  server :: "request list \<Rightarrow> request \<Rightarrow> reply"

datatype printout = JsonDump json | Line string

text \<open>
  The observable effects of the process so far: the HTTP requests issued, in order, and
  what was printed on standard output and standard error.
\<close>

record proc =
  sent :: "request list"
  stdout :: "printout list"
  stderr :: "string list"

record TodoistClient =
  token :: string
  api_url :: string
  headers :: "(string \<times> string) list"

datatype command = List | Create | CreateBatch | Delete | Complete | Update

record args =
  command :: command
  project :: "string option"
  content :: "string option"
  id' :: "string option"
  labels :: "string option"
  description :: "string option"
  file' :: "string option"

section \<open>Library functions\<close>

text \<open>\<open>str.isspace\<close> on the ASCII range, and \<open>str.strip()\<close>.\<close>

definition isspace :: "char \<Rightarrow> bool" where
  "isspace c \<longleftrightarrow> List.member
     [CHR 0x09, CHR 0x0A, CHR 0x0B, CHR 0x0C, CHR 0x0D,
      CHR 0x1C, CHR 0x1D, CHR 0x1E, CHR 0x1F, CHR 0x20] c"

definition strip :: "string \<Rightarrow> string" where
  "strip s = rev (dropWhile isspace (rev (dropWhile isspace s)))"

text \<open>\<open>str.split(sep)\<close> for a one-character separator.\<close>

fun split :: "char \<Rightarrow> string \<Rightarrow> string list" where
  "split sep [] = [[]]"
| "split sep (c # cs) =
     (if c = sep then [] # split sep cs
      else (case split sep cs of
              [] \<Rightarrow> [[c]]
            | x # xs \<Rightarrow> (c # x) # xs))"

text \<open>\<open>d.get(k)\<close>: only a dict has the method; a missing key gives \<open>None\<close>.\<close>

fun py_get :: "json \<Rightarrow> string \<Rightarrow> error + json" where
  "py_get (JObject kvs) k = Inr (case map_of kvs k of None \<Rightarrow> JNull | Some v \<Rightarrow> v)"
| "py_get _ k = Inl AttributeError"

text \<open>
  \<open>requests.get/post/delete\<close>: the request goes out and is recorded; the server
  answers it knowing the earlier requests.
\<close>

definition send :: "world \<Rightarrow> request \<Rightarrow> proc \<Rightarrow> (error + response) \<times> proc" where
  "send w req p =
     (case server w (sent p) req of
        NoReply \<Rightarrow> (Inl ConnectionError, p\<lparr>sent := sent p @ [req]\<rparr>)
      | Reply r \<Rightarrow> (Inr r, p\<lparr>sent := sent p @ [req]\<rparr>))"

text \<open>
  \<open>Response.raise_for_status()\<close> of the requests library: it raises for the
  client-error and server-error classes, \<open>400 <= status_code < 600\<close>, and for no other
  status.
\<close>

definition raise_for_status :: "response \<Rightarrow> error + unit" where
  "raise_for_status r =
     (if 400 \<le> status_code r \<and> status_code r < 600 then Inl (HTTPError r) else Inr ())"

text \<open>\<open>Response.json()\<close>: decode the body.\<close>

definition resp_json :: "world \<Rightarrow> response \<Rightarrow> error + json" where
  "resp_json w r = (case json_loads w (body r) of None \<Rightarrow> Inl JSONDecodeError | Some j \<Rightarrow> Inr j)"

section \<open>The client\<close>

text \<open>
  \<open>TodoistClient.__init__\<close>. The secret files are tried only when the environment
  gives no (or an empty) token; the loop breaks at the first path that exists.
\<close>

fun read_secrets :: "world \<Rightarrow> string list \<Rightarrow> error + string option" where
  "read_secrets w [] = Inr None"
| "read_secrets w (name # names) =
     (case files w (''/run/secrets/'' @ name) of
        Absent \<Rightarrow> read_secrets w names
      | Unreadable \<Rightarrow> Inl OSError
      | File s \<Rightarrow> Inr (Some (strip s)))"

definition init_error_message :: string where
  "init_error_message =
     ''Error: TODOIST_TOKEN environment variable or /run/secrets/todoist_token not found.''"

definition TodoistClient_init :: "world \<Rightarrow> proc \<Rightarrow> (error + TodoistClient) \<times> proc" where
  "TodoistClient_init w p =
     (let tok0 = environ w ''TODOIST_TOKEN'';
          found =
            (if tok0 = None \<or> tok0 = Some []
             then (case read_secrets w [''todoist_token'', ''TODOIST_TOKEN''] of
                     Inl e \<Rightarrow> Inl e
                   | Inr None \<Rightarrow> Inr tok0
                   | Inr (Some t) \<Rightarrow> Inr (Some t))
             else Inr tok0)
      in case found of
           Inl e \<Rightarrow> (Inl e, p)
         | Inr None \<Rightarrow> (Inl (SysExit 1), p\<lparr>stderr := stderr p @ [init_error_message]\<rparr>)
         | Inr (Some t) \<Rightarrow>
             (if t = [] then (Inl (SysExit 1), p\<lparr>stderr := stderr p @ [init_error_message]\<rparr>)
              else (Inr \<lparr>token = t,
                         api_url = ''https://api.todoist.com/rest/v2'',
                         headers = [(''Authorization'', ''Bearer '' @ t),
                                    (''Content-Type'', ''application/json'')]\<rparr>, p)))"

definition list_tasks :: "world \<Rightarrow> TodoistClient \<Rightarrow> json \<Rightarrow> proc \<Rightarrow> (error + json) \<times> proc" where
  "list_tasks w c project_id p =
     (let params = (if truthy project_id then [(''project_id'', project_id)] else [])
      in case send w \<lparr>req_method = GET, req_url = api_url c @ ''/tasks'',
                       req_headers = headers c, req_params = params, req_json = None\<rparr> p of
           (Inl e, p') \<Rightarrow> (Inl e, p')
         | (Inr resp, p') \<Rightarrow>
             (case raise_for_status resp of
                Inl e \<Rightarrow> (Inl e, p')
              | Inr _ \<Rightarrow> (resp_json w resp, p')))"

definition create_task ::
  "world \<Rightarrow> TodoistClient \<Rightarrow> json \<Rightarrow> json \<Rightarrow> json \<Rightarrow> json \<Rightarrow> proc \<Rightarrow> (error + json) \<times> proc" where
  "create_task w c content' project_id labels' description' p =
     (let data0 = [(''content'', content'), (''project_id'', project_id)];
          data1 = (if truthy labels' then data0 @ [(''labels'', labels')] else data0);
          data = (if truthy description' then data1 @ [(''description'', description')] else data1)
      in case send w \<lparr>req_method = POST, req_url = api_url c @ ''/tasks'',
                       req_headers = headers c, req_params = [], req_json = Some data\<rparr> p of
           (Inl e, p') \<Rightarrow> (Inl e, p')
         | (Inr resp, p') \<Rightarrow>
             (case raise_for_status resp of
                Inl e \<Rightarrow> (Inl e, p')
              | Inr _ \<Rightarrow> (resp_json w resp, p')))"

definition delete_task :: "world \<Rightarrow> TodoistClient \<Rightarrow> string option \<Rightarrow> proc \<Rightarrow> (error + bool) \<times> proc" where
  "delete_task w c task_id p =
     (case send w \<lparr>req_method = DELETE, req_url = api_url c @ ''/tasks/'' @ fmt task_id,
                    req_headers = headers c, req_params = [], req_json = None\<rparr> p of
        (Inl e, p') \<Rightarrow> (Inl e, p')
      | (Inr resp, p') \<Rightarrow>
          (case raise_for_status resp of
             Inl e \<Rightarrow> (Inl e, p')
           | Inr _ \<Rightarrow> (Inr True, p')))"

definition complete_task :: "world \<Rightarrow> TodoistClient \<Rightarrow> string option \<Rightarrow> proc \<Rightarrow> (error + bool) \<times> proc" where
  "complete_task w c task_id p =
     (case send w \<lparr>req_method = POST, req_url = api_url c @ ''/tasks/'' @ fmt task_id @ ''/close'',
                    req_headers = headers c, req_params = [], req_json = None\<rparr> p of
        (Inl e, p') \<Rightarrow> (Inl e, p')
      | (Inr resp, p') \<Rightarrow>
          (case raise_for_status resp of
             Inl e \<Rightarrow> (Inl e, p')
           | Inr _ \<Rightarrow> (Inr True, p')))"

definition update_task ::
  "world \<Rightarrow> TodoistClient \<Rightarrow> string option \<Rightarrow> json \<Rightarrow> json \<Rightarrow> proc \<Rightarrow> (error + json) \<times> proc" where
  "update_task w c task_id labels' description' p =
     (let data0 = [];
          data1 = (if labels' \<noteq> JNull then data0 @ [(''labels'', labels')] else data0);
          data = (if description' \<noteq> JNull then data1 @ [(''description'', description')] else data1)
      in case send w \<lparr>req_method = POST, req_url = api_url c @ ''/tasks/'' @ fmt task_id,
                       req_headers = headers c, req_params = [], req_json = Some data\<rparr> p of
           (Inl e, p') \<Rightarrow> (Inl e, p')
         | (Inr resp, p') \<Rightarrow>
             (case raise_for_status resp of
                Inl e \<Rightarrow> (Inl e, p')
              | Inr _ \<Rightarrow> (resp_json w resp, p')))"

section \<open>Batch file and command-line dispatch\<close>

definition load_tasks_from_file :: "world \<Rightarrow> string \<Rightarrow> error + json list" where
  "load_tasks_from_file w path =
     (case files w path of
        Absent \<Rightarrow> Inl OSError
      | Unreadable \<Rightarrow> Inl OSError
      | File s \<Rightarrow>
          (case json_loads w s of
             None \<Rightarrow> Inl JSONDecodeError
           | Some (JArray xs) \<Rightarrow> Inr xs
           | Some _ \<Rightarrow> Inl (ValueError ''Batch payload must be a JSON array.'')))"

text \<open>The \<open>for task in batch\<close> loop of the \<open>create-batch\<close> branch.\<close>

fun create_batch ::
  "world \<Rightarrow> TodoistClient \<Rightarrow> json \<Rightarrow> json list \<Rightarrow> json list \<Rightarrow> proc
     \<Rightarrow> (error + json list) \<times> proc" where
  "create_batch w c proj [] created p = (Inr created, p)"
| "create_batch w c proj (task # batch) created p =
     (case py_get task ''content'' of
        Inl e \<Rightarrow> (Inl e, p)
      | Inr cont \<Rightarrow>
     (case py_get task ''labels'' of
        Inl e \<Rightarrow> (Inl e, p)
      | Inr labs \<Rightarrow>
     (case py_get task ''description'' of
        Inl e \<Rightarrow> (Inl e, p)
      | Inr descr \<Rightarrow>
     (case create_task w c cont proj labs descr p of
        (Inl e, p') \<Rightarrow> (Inl e, p')
      | (Inr t, p') \<Rightarrow> create_batch w c proj batch (created @ [t]) p'))))"

text \<open>\<open>args.labels.split(",") if args.labels else None\<close>\<close>

definition labels_arg :: "string option \<Rightarrow> json" where
  "labels_arg l =
     (case l of
        None \<Rightarrow> JNull
      | Some s \<Rightarrow> (if s = [] then JNull else JArray (map JString (split CHR '','' s))))"

text \<open>The \<open>if/elif\<close> chain of the main block, after the client has been built.\<close>

definition dispatch :: "world \<Rightarrow> TodoistClient \<Rightarrow> args \<Rightarrow> proc \<Rightarrow> (error + unit) \<times> proc" where
  "dispatch w client a p =
     (case command a of
        List \<Rightarrow>
          (case list_tasks w client (of_flag (project a)) p of
             (Inl e, p') \<Rightarrow> (Inl e, p')
           | (Inr j, p') \<Rightarrow> (Inr (), p'\<lparr>stdout := stdout p' @ [JsonDump j]\<rparr>))
      | Create \<Rightarrow>
          (case create_task w client (of_flag (content a)) (of_flag (project a))
                  (labels_arg (labels a)) JNull p of
             (Inl e, p') \<Rightarrow> (Inl e, p')
           | (Inr j, p') \<Rightarrow> (Inr (), p'\<lparr>stdout := stdout p' @ [JsonDump j]\<rparr>))
      | CreateBatch \<Rightarrow>
          (if \<not> truthy (of_flag (project a)) then
             (Inl (SystemExit ''create-batch requires --project''), p)
           else
             (case file' a of
                None \<Rightarrow> (Inl (SystemExit ''create-batch requires --file''), p)
              | Some path \<Rightarrow>
                  (if path = [] then (Inl (SystemExit ''create-batch requires --file''), p)
                   else
                     (case load_tasks_from_file w path of
                        Inl e \<Rightarrow> (Inl e, p)
                      | Inr batch \<Rightarrow>
                          (case create_batch w client (of_flag (project a)) batch [] p of
                             (Inl e, p') \<Rightarrow> (Inl e, p')
                           | (Inr created, p') \<Rightarrow>
                               (Inr (), p'\<lparr>stdout := stdout p' @ [JsonDump (JArray created)]\<rparr>))))))
      | Update \<Rightarrow>
          (case update_task w client (id' a) (labels_arg (labels a)) (of_flag (description a)) p of
             (Inl e, p') \<Rightarrow> (Inl e, p')
           | (Inr j, p') \<Rightarrow> (Inr (), p'\<lparr>stdout := stdout p' @ [JsonDump j]\<rparr>))
      | Delete \<Rightarrow>
          (case delete_task w client (id' a) p of
             (Inl e, p') \<Rightarrow> (Inl e, p')
           | (Inr ok, p') \<Rightarrow>
               (Inr (), if ok then p'\<lparr>stdout := stdout p' @ [Line (''Deleted '' @ fmt (id' a))]\<rparr> else p'))
      | Complete \<Rightarrow>
          (case complete_task w client (id' a) p of
             (Inl e, p') \<Rightarrow> (Inl e, p')
           | (Inr ok, p') \<Rightarrow>
               (Inr (), if ok then p'\<lparr>stdout := stdout p' @ [Line (''Completed '' @ fmt (id' a))]\<rparr> else p')))"

text \<open>The main block: build the client, then dispatch.\<close>

definition main :: "world \<Rightarrow> args \<Rightarrow> proc \<Rightarrow> (error + unit) \<times> proc" where
  "main w a p =
     (case TodoistClient_init w p of
        (Inl e, p') \<Rightarrow> (Inl e, p')
      | (Inr client, p') \<Rightarrow> dispatch w client a p')"

text \<open>
  What the interpreter does with an exception nobody caught: \<open>sys.exit(n)\<close> ends the
  process with status \<open>n\<close>; \<open>SystemExit(msg)\<close> prints the message on standard error and
  ends with status 1; any other exception prints a traceback on standard error and ends
  with status 1.
\<close>

fun exit_status :: "error + unit \<Rightarrow> int" where
  "exit_status (Inr _) = 0"
| "exit_status (Inl (SysExit n)) = n"
| "exit_status (Inl _) = 1"

fun uncaught :: "error + unit \<Rightarrow> string list" where
  "uncaught (Inr _) = []"
| "uncaught (Inl (SysExit n)) = []"
| "uncaught (Inl (SystemExit msg)) = [msg]"
| "uncaught (Inl _) = [''Traceback (most recent call last):'']"

record outcome =
  requests :: "request list"
  printed :: "printout list"
  diagnostics :: "string list"
  exit_code :: int

definition proc0 :: proc where
  "proc0 = \<lparr>sent = [], stdout = [], stderr = []\<rparr>"

definition run :: "world \<Rightarrow> args \<Rightarrow> outcome" where
  "run w a =
     (case main w a proc0 of
        (r, p) \<Rightarrow> \<lparr>requests = sent p, printed = stdout p,
                    diagnostics = stderr p @ uncaught r, exit_code = exit_status r\<rparr>)"

section \<open>Notions used to state the properties\<close>

text \<open>
  What a call that decodes its response yields for a request, given the requests the
  server has already seen: the connection error, the HTTP error, the decoding error or
  the decoded JSON.
\<close>

definition answer :: "world \<Rightarrow> request list \<Rightarrow> request \<Rightarrow> error + json" where
  "answer w tr req =
     (case server w tr req of
        NoReply \<Rightarrow> Inl ConnectionError
      | Reply r \<Rightarrow> (case raise_for_status r of Inl e \<Rightarrow> Inl e | Inr _ \<Rightarrow> resp_json w r))"

text \<open>The answers to a sequence of requests issued one after the other.\<close>

fun answers :: "world \<Rightarrow> request list \<Rightarrow> request list \<Rightarrow> (error + json) list" where
  "answers w tr [] = []"
| "answers w tr (r # rs) = answer w tr r # answers w (tr @ [r]) rs"

text \<open>
  The create call expected for one element of a batch, an object with the given
  members, under project \<open>P\<close>: \<open>POST /tasks\<close> with the element's content, the
  project, and its labels and description when they are truthy.
\<close>

definition member :: "(string \<times> json) list \<Rightarrow> string \<Rightarrow> json" where
  "member kvs k = (case map_of kvs k of None \<Rightarrow> JNull | Some v \<Rightarrow> v)"

definition batch_call :: "TodoistClient \<Rightarrow> json \<Rightarrow> (string \<times> json) list \<Rightarrow> request" where
  "batch_call c P kvs =
     \<lparr>req_method = POST, req_url = api_url c @ ''/tasks'', req_headers = headers c,
      req_params = [],
      req_json = Some ([(''content'', member kvs ''content''), (''project_id'', P)]
                   @ (if truthy (member kvs ''labels'') then [(''labels'', member kvs ''labels'')] else [])
                   @ (if truthy (member kvs ''description'')
                      then [(''description'', member kvs ''description'')] else []))\<rparr>"

text \<open>The requests a call issues: those in the trace after the call, beyond those before.\<close>

definition issued :: "proc \<Rightarrow> 'a \<times> proc \<Rightarrow> request list" where
  "issued p res = drop (length (sent p)) (sent (snd res))"


section \<open>Example inputs\<close>

definition ex_client :: TodoistClient where
  "ex_client =
     \<lparr>token = ''tok'', api_url = ''https://api.todoist.com/rest/v2'',
      headers = [(''Authorization'', ''Bearer tok''), (''Content-Type'', ''application/json'')]\<rparr>"

text \<open>A decoder that knows three texts, enough for the examples.\<close>

definition ex_loads :: "string \<Rightarrow> json option" where
  \<open>ex_loads s =
     (if s = ''{}'' then Some (JObject [])
      else if s = ''[{"content":"A"},{"content":"B"},{"content":"C"}]''
        then Some (JArray [JObject [(''content'', JString ''A'')],
                           JObject [(''content'', JString ''B'')],
                           JObject [(''content'', JString ''C'')]])
      else if s = ''[1]'' then Some (JArray [JInt 1])
      else None)\<close>

definition ex_args :: args where
  "ex_args = \<lparr>command = Delete, project = None, content = None, id' = Some ''7'',
               labels = None, description = None, file' = None\<rparr>"

text \<open>The token in the environment, no files, a server that answers 200 with \<open>{}\<close>.\<close>

definition ex_world :: world where
  \<open>ex_world =
     \<lparr>environ = (\<lambda>k. if k = ''TODOIST_TOKEN'' then Some ''tok'' else None),
      files = (\<lambda>path. if path = ''batch.json''
                        then File ''[{"content":"A"},{"content":"B"},{"content":"C"}]''
                      else if path = ''one.json'' then File ''[1]''
                      else if path = ''obj.json'' then File ''{}''
                      else Absent),
      json_loads = ex_loads,
      server = (\<lambda>tr req. Reply \<lparr>status_code = 200, body = ''{}''\<rparr>)\<rparr>\<close>

definition ex_batch_args :: args where
  "ex_batch_args = \<lparr>command = CreateBatch, project = Some ''P'', content = None, id' = None,
                     labels = None, description = None, file' = Some ''batch.json''\<rparr>"

text \<open>As \<open>ex_world\<close>, but the server rejects the second request it receives.\<close>

definition ex_world_400 :: world where
  "ex_world_400 =
     ex_world\<lparr>server := (\<lambda>tr req. if length tr = 1
                                   then Reply \<lparr>status_code = 400, body = ''Bad Request''\<rparr>
                                   else Reply \<lparr>status_code = 200, body = ''{}''\<rparr>)\<rparr>"

text \<open>The batch file holds one element that is not an object.\<close>

definition ex_one_args :: args where
  "ex_one_args = ex_batch_args\<lparr>file' := Some ''one.json''\<rparr>"

text \<open>The project flag is given, but empty.\<close>

definition ex_noproject_args :: args where
  "ex_noproject_args = ex_batch_args\<lparr>project := Some []\<rparr>"

text \<open>The batch file holds a JSON object, not an array.\<close>

definition ex_obj_args :: args where
  "ex_obj_args = ex_batch_args\<lparr>file' := Some ''obj.json''\<rparr>"

definition ex_create_args :: args where
  "ex_create_args = \<lparr>command = Create, project = Some ''P'', content = Some ''Buy milk'',
       id' = None, labels = Some ''a,b'', description = Some ''two litres'', file' = None\<rparr>"

text \<open>Servers that answer every request with 304, and with 500.\<close>

definition ex_world_304 :: world where
  "ex_world_304 = ex_world\<lparr>server := (\<lambda>tr req. Reply \<lparr>status_code = 304, body = []\<rparr>)\<rparr>"

definition ex_world_500 :: world where
  "ex_world_500 = ex_world\<lparr>server := (\<lambda>tr req. Reply \<lparr>status_code = 500, body = ''oops''\<rparr>)\<rparr>"




section \<open>Basic facts about the calls\<close>

lemma send_eq:
  "send w req p =
     ((case server w (sent p) req of NoReply \<Rightarrow> Inl ConnectionError | Reply r \<Rightarrow> Inr r),
      p\<lparr>sent := sent p @ [req]\<rparr>)"
  by (simp add: send_def split: reply.split)

lemma create_task_eq:
  "create_task w c co pr l d p =
     (let req = \<lparr>req_method = POST, req_url = api_url c @ ''/tasks'', req_headers = headers c,
                 req_params = [],
                 req_json = Some ([(''content'', co), (''project_id'', pr)]
                   @ (if truthy l then [(''labels'', l)] else [])
                   @ (if truthy d then [(''description'', d)] else []))\<rparr>
      in (answer w (sent p) req, p\<lparr>sent := sent p @ [req]\<rparr>))"
  by (simp add: create_task_def send_eq answer_def Let_def split: reply.split sum.split)

lemma create_task_member:
  "create_task w c (member kvs ''content'') P (member kvs ''labels'') (member kvs ''description'') p =
     (answer w (sent p) (batch_call c P kvs), p\<lparr>sent := sent p @ [batch_call c P kvs]\<rparr>)"
  by (simp add: create_task_eq batch_call_def Let_def)

lemma py_get_object: "py_get (JObject kvs) k = Inr (member kvs k)"
  by (simp add: member_def)

lemma answer_error_exit: "answer w tr req = Inl e \<Longrightarrow> exit_status (Inl e) = 1"
  by (auto simp: answer_def raise_for_status_def resp_json_def
           split: reply.splits if_splits option.splits)

lemma answer_error_uncaught: "answer w tr req = Inl e \<Longrightarrow> uncaught (Inl e) \<noteq> []"
  by (auto simp: answer_def raise_for_status_def resp_json_def
           split: reply.splits if_splits option.splits)

section \<open>The batch loop\<close>

lemma create_batch_step:
  "create_batch w c P (JObject kvs # batch) created p =
     (case answer w (sent p) (batch_call c P kvs) of
        Inl e \<Rightarrow> (Inl e, p\<lparr>sent := sent p @ [batch_call c P kvs]\<rparr>)
      | Inr t \<Rightarrow> create_batch w c P batch (created @ [t]) (p\<lparr>sent := sent p @ [batch_call c P kvs]\<rparr>))"
  by (simp add: py_get_object create_task_member del: py_get.simps)

lemma create_batch_all_ok:
  "\<forall>r \<in> set (answers w (sent p) (map (batch_call c P) kvss)). \<not> isl r \<Longrightarrow>
   create_batch w c P (map JObject kvss) created p =
     (Inr (created @ map projr (answers w (sent p) (map (batch_call c P) kvss))),
      p\<lparr>sent := sent p @ map (batch_call c P) kvss\<rparr>)"
proof (induction kvss arbitrary: created p)
  case Nil
  then show ?case by simp
next
  case (Cons kvs kvss)
  from Cons.prems obtain t where t: "answer w (sent p) (batch_call c P kvs) = Inr t"
    by (cases "answer w (sent p) (batch_call c P kvs)") auto
  let ?p = "p\<lparr>sent := sent p @ [batch_call c P kvs]\<rparr>"
  from Cons.prems have "\<forall>r \<in> set (answers w (sent ?p) (map (batch_call c P) kvss)). \<not> isl r"
    by simp
  from Cons.IH [OF this, of "created @ [t]"] t show ?case
    by (simp add: create_batch_step del: create_batch.simps)
qed

lemma create_batch_stops:
  "\<forall>r \<in> set (answers w (sent p) (map (batch_call c P) pre)). \<not> isl r \<Longrightarrow>
   answer w (sent p @ map (batch_call c P) pre) (batch_call c P kvs) = Inl e \<Longrightarrow>
   create_batch w c P (map JObject pre @ JObject kvs # post) created p =
     (Inl e, p\<lparr>sent := sent p @ map (batch_call c P) pre @ [batch_call c P kvs]\<rparr>)"
proof (induction pre arbitrary: created p)
  case Nil
  then show ?case by (simp add: create_batch_step del: create_batch.simps)
next
  case (Cons x pre)
  from Cons.prems(1) obtain t where t: "answer w (sent p) (batch_call c P x) = Inr t"
    by (cases "answer w (sent p) (batch_call c P x)") auto
  let ?p = "p\<lparr>sent := sent p @ [batch_call c P x]\<rparr>"
  from Cons.prems have a: "\<forall>r \<in> set (answers w (sent ?p) (map (batch_call c P) pre)). \<not> isl r"
    and b: "answer w (sent ?p @ map (batch_call c P) pre) (batch_call c P kvs) = Inl e"
    by simp_all
  from Cons.IH [OF a b, of "created @ [t]"] t show ?case
    by (simp add: create_batch_step del: create_batch.simps)
qed

lemma run_create_batch:
  assumes "TodoistClient_init w proc0 = (Inr c, proc0)"
    and "command a = CreateBatch" and "project a = Some P" and "P \<noteq> []"
    and "file' a = Some path" and "path \<noteq> []"
    and "load_tasks_from_file w path = Inr batch"
  shows "run w a =
     (case create_batch w c (JString P) batch [] proc0 of
        (Inl e, p) \<Rightarrow> \<lparr>requests = sent p, printed = stdout p,
                          diagnostics = stderr p @ uncaught (Inl e), exit_code = exit_status (Inl e)\<rparr>
      | (Inr created, p) \<Rightarrow> \<lparr>requests = sent p, printed = stdout p @ [JsonDump (JArray created)],
                          diagnostics = stderr p, exit_code = 0\<rparr>)"
  using assms by (simp add: run_def main_def dispatch_def split: prod.split sum.split)

section \<open>The other calls\<close>

lemma issued_append [simp]: "issued p (x, p\<lparr>sent := sent p @ rs\<rparr>) = rs"
  by (simp add: issued_def)

lemma list_tasks_eq:
  "list_tasks w c pid p =
     (let req = \<lparr>req_method = GET, req_url = api_url c @ ''/tasks'', req_headers = headers c,
                 req_params = (if truthy pid then [(''project_id'', pid)] else []),
                 req_json = None\<rparr>
      in (answer w (sent p) req, p\<lparr>sent := sent p @ [req]\<rparr>))"
  by (simp add: list_tasks_def send_eq answer_def Let_def split: reply.split sum.split)

lemma update_task_eq:
  "update_task w c tid l d p =
     (let req = \<lparr>req_method = POST, req_url = api_url c @ ''/tasks/'' @ fmt tid,
                 req_headers = headers c, req_params = [],
                 req_json = Some ((if l \<noteq> JNull then [(''labels'', l)] else [])
                   @ (if d \<noteq> JNull then [(''description'', d)] else []))\<rparr>
      in (answer w (sent p) req, p\<lparr>sent := sent p @ [req]\<rparr>))"
  by (simp add: update_task_def send_eq answer_def Let_def split: reply.split sum.split)

lemma delete_task_eq:
  "delete_task w c tid p =
     (let req = \<lparr>req_method = DELETE, req_url = api_url c @ ''/tasks/'' @ fmt tid,
                 req_headers = headers c, req_params = [], req_json = None\<rparr>
      in ((case server w (sent p) req of
             NoReply \<Rightarrow> Inl ConnectionError
           | Reply r \<Rightarrow> (case raise_for_status r of Inl e \<Rightarrow> Inl e | Inr _ \<Rightarrow> Inr True)),
          p\<lparr>sent := sent p @ [req]\<rparr>))"
  by (simp add: delete_task_def send_eq Let_def split: reply.split sum.split)

lemma complete_task_eq:
  "complete_task w c tid p =
     (let req = \<lparr>req_method = POST, req_url = api_url c @ ''/tasks/'' @ fmt tid @ ''/close'',
                 req_headers = headers c, req_params = [], req_json = None\<rparr>
      in ((case server w (sent p) req of
             NoReply \<Rightarrow> Inl ConnectionError
           | Reply r \<Rightarrow> (case raise_for_status r of Inl e \<Rightarrow> Inl e | Inr _ \<Rightarrow> Inr True)),
          p\<lparr>sent := sent p @ [req]\<rparr>))"
  by (simp add: complete_task_def send_eq Let_def split: reply.split sum.split)

lemma raise_for_status_error:
  "400 \<le> status_code r \<Longrightarrow> status_code r < 600 \<Longrightarrow> raise_for_status r = Inl (HTTPError r)"
  by (simp add: raise_for_status_def)

lemma answer_http_error:
  "400 \<le> status_code r \<Longrightarrow> status_code r < 600 \<Longrightarrow> server w tr req = Reply r \<Longrightarrow>
   answer w tr req = Inl (HTTPError r)"
  by (simp add: answer_def raise_for_status_def)

section \<open>The constructor\<close>

lemma init_cases:
  "(\<exists>c. TodoistClient_init w p = (Inr c, p) \<and> token c \<noteq> [])
   \<or> (\<exists>e p'. TodoistClient_init w p = (Inl e, p') \<and> sent p' = sent p \<and> stdout p' = stdout p
         \<and> exit_status (Inl e) = 1 \<and> stderr p' @ uncaught (Inl e) \<noteq> [])"
  by (auto simp: TodoistClient_init_def Let_def split: sum.split option.split fs_entry.split)

lemma run_init_failure:
  assumes "isl (fst (TodoistClient_init w proc0))"
  shows "requests (run w a) = [] \<and> printed (run w a) = [] \<and> exit_code (run w a) = 1
         \<and> diagnostics (run w a) \<noteq> []"
proof -
  from init_cases [of w proc0] assms
  obtain e p' where "TodoistClient_init w proc0 = (Inl e, p')" "sent p' = sent proc0"
    "stdout p' = stdout proc0" "exit_status (Inl e) = 1" "stderr p' @ uncaught (Inl e) \<noteq> []"
    by auto
  then show ?thesis by (simp add: run_def main_def proc0_def)
qed


section \<open>Validation of the batch input\<close>

lemma load_not_array:
  "files w path = File s \<Longrightarrow> json_loads w s = Some j \<Longrightarrow> \<forall>xs. j \<noteq> JArray xs \<Longrightarrow>
   load_tasks_from_file w path = Inl (ValueError ''Batch payload must be a JSON array.'')"
  by (cases j) (simp_all add: load_tasks_from_file_def)

lemma dispatch_batch_rejected:
  assumes "command a = CreateBatch"
    and "project a = None \<or> file' a = None
         \<or> (\<exists>path s j. file' a = Some path \<and> files w path = File s \<and> json_loads w s = Some j
               \<and> (\<forall>xs. j \<noteq> JArray xs))"
  shows "\<exists>e. dispatch w c a p = (Inl e, p) \<and> exit_status (Inl e) = 1"
proof -
  consider (np) "\<not> truthy (of_flag (project a))"
    | (nf) "truthy (of_flag (project a))" "file' a = None"
    | (ef) "truthy (of_flag (project a))" "file' a = Some []"
    | (na) path s j where "truthy (of_flag (project a))" "file' a = Some path" "path \<noteq> []"
        "files w path = File s" "json_loads w s = Some j" "\<forall>xs. j \<noteq> JArray xs"
    using assms(2) by (cases "project a"; cases "file' a") auto
  then show ?thesis
  proof cases
    case np
    with assms(1) show ?thesis by (simp add: dispatch_def)
  next
    case nf
    with assms(1) show ?thesis by (simp add: dispatch_def)
  next
    case ef
    with assms(1) show ?thesis by (simp add: dispatch_def)
  next
    case na
    from load_not_array [OF na(4,5,6)] na(1,2,3) assms(1) show ?thesis
      by (simp add: dispatch_def)
  qed
qed

section \<open>Properties\<close>



text \<open>
  C2 (as amended). \<open>update_task\<close> puts \<open>labels\<close> and \<open>description\<close> in the body
  exactly when the argument is not \<open>None\<close>, so an empty list or an empty string is
  sent. \<open>create_task\<close> puts them in the body exactly when the argument is truthy, so
  an empty list or an empty string is left out like \<open>None\<close>; content and project are
  always sent.
\<close>

theorem optional_fields:
  "(\<exists>req data. issued p (update_task w c tid l d p) = [req] \<and> req_json req = Some data
       \<and> map_of data ''labels'' = (if l = JNull then None else Some l)
       \<and> map_of data ''description'' = (if d = JNull then None else Some d))
   \<and> (\<exists>req data. issued p (create_task w c co pr l d p) = [req] \<and> req_json req = Some data
       \<and> map_of data ''content'' = Some co \<and> map_of data ''project_id'' = Some pr
       \<and> map_of data ''labels'' = (if truthy l then Some l else None)
       \<and> map_of data ''description'' = (if truthy d then Some d else None))"
  by (simp add: update_task_eq create_task_eq Let_def)

theorem optional_fields_witness:
  "map req_json (issued proc0 (update_task ex_world ex_client (Some ''t1'') (JArray []) (JString []) proc0))
     = [Some [(''labels'', JArray []), (''description'', JString [])]]"
  using optional_fields [of proc0 ex_world ex_client "Some ''t1''" "JArray []" "JString []"]
  by (simp add: update_task_eq Let_def)

text \<open>
  C2 as stated fails for \<open>create_task\<close>: called with the empty list as labels and
  the empty string as description, the body has neither key.
\<close>

theorem optional_fields_counterexample:
  "map req_json
     (issued proc0 (create_task ex_world ex_client (JString ''x'') (JString ''p'')
        (JArray []) (JString []) proc0)) =
     [Some [(''content'', JString ''x''), (''project_id'', JString ''p'')]]"
  by (simp add: create_task_eq Let_def)

text \<open>
  C3 (as amended). For a batch file whose payload is an array of JSON objects, a
  non-empty \<open>--project\<close> value \<open>P\<close> and a non-empty \<open>--file\<close> path, when every
  create call succeeds: the requests issued are exactly the create calls of the elements,
  one per element in input order, each with \<open>project_id = P\<close>; the array of the
  decoded responses is printed in the same order, and the exit status is 0.
\<close>

theorem batch_in_order:
  assumes "TodoistClient_init w proc0 = (Inr c, proc0)"
    and "command a = CreateBatch" and "project a = Some P" and "P \<noteq> []"
    and "file' a = Some path" and "path \<noteq> []"
    and "load_tasks_from_file w path = Inr (map JObject kvss)"
    and "\<forall>r \<in> set (answers w [] (map (batch_call c (JString P)) kvss)). \<not> isl r"
  shows "requests (run w a) = map (batch_call c (JString P)) kvss
       \<and> (\<forall>r \<in> set (requests (run w a)).
            \<exists>data. req_json r = Some data \<and> map_of data ''project_id'' = Some (JString P))
       \<and> printed (run w a) =
            [JsonDump (JArray (map projr (answers w [] (map (batch_call c (JString P)) kvss))))]
       \<and> exit_code (run w a) = 0"
proof -
  have "create_batch w c (JString P) (map JObject kvss) [] proc0 =
          (Inr ([] @ map projr (answers w (sent proc0) (map (batch_call c (JString P)) kvss))),
           proc0\<lparr>sent := sent proc0 @ map (batch_call c (JString P)) kvss\<rparr>)"
    using assms(8) by (intro create_batch_all_ok) (simp add: proc0_def)
  then show ?thesis
    using run_create_batch [OF assms(1-7)]
    by (auto simp: proc0_def batch_call_def)
qed

theorem batch_in_order_witness:
  "requests (run ex_world ex_batch_args) =
     [batch_call ex_client (JString ''P'') [(''content'', JString ''A'')],
      batch_call ex_client (JString ''P'') [(''content'', JString ''B'')],
      batch_call ex_client (JString ''P'') [(''content'', JString ''C'')]]
   \<and> printed (run ex_world ex_batch_args) = [JsonDump (JArray [JObject [], JObject [], JObject []])]
   \<and> exit_code (run ex_world ex_batch_args) = 0"
  using batch_in_order [of ex_world ex_client ex_batch_args "''P''" "''batch.json''"
      "[[(''content'', JString ''A'')], [(''content'', JString ''B'')], [(''content'', JString ''C'')]]"]
  by (simp add: ex_world_def ex_client_def ex_batch_args_def ex_loads_def
        TodoistClient_init_def proc0_def load_tasks_from_file_def answer_def
        raise_for_status_def resp_json_def batch_call_def member_def)

text \<open>
  C3 as stated fails: the payload \<open>[1]\<close> is an array, but its element has no
  \<open>get\<close> method, so no create call is issued and the process ends with status 1; and
  with the empty string as \<open>--project\<close> value no call is issued either.
\<close>

theorem batch_in_order_counterexample:
  "load_tasks_from_file ex_world ''one.json'' = Inr [JInt 1]
   \<and> requests (run ex_world ex_one_args) = []
   \<and> printed (run ex_world ex_one_args) = []
   \<and> exit_code (run ex_world ex_one_args) = 1
   \<and> requests (run ex_world ex_noproject_args) = []
   \<and> exit_code (run ex_world ex_noproject_args) = 1"
  by (simp add: run_def main_def dispatch_def ex_world_def ex_one_args_def ex_noproject_args_def
        ex_batch_args_def ex_loads_def TodoistClient_init_def proc0_def load_tasks_from_file_def)

text \<open>
  C4. When the create call of a batch element fails (no reply, an error status or an
  undecodable body) after the calls of all earlier elements succeeded, the process has
  issued exactly the create calls of the earlier elements and of the failing one, in
  order, and none for a later element; nothing is printed on standard output, no request
  other than these \<open>POST\<close>s is made (no rollback), and the exit status is 1.
\<close>

theorem batch_stops_at_first_failure:
  assumes "TodoistClient_init w proc0 = (Inr c, proc0)"
    and "command a = CreateBatch" and "project a = Some P" and "P \<noteq> []"
    and "file' a = Some path" and "path \<noteq> []"
    and "load_tasks_from_file w path = Inr (map JObject pre @ JObject kvs # post)"
    and "\<forall>r \<in> set (answers w [] (map (batch_call c (JString P)) pre)). \<not> isl r"
    and "answer w (map (batch_call c (JString P)) pre) (batch_call c (JString P) kvs) = Inl e"
  shows "requests (run w a) = map (batch_call c (JString P)) pre @ [batch_call c (JString P) kvs]
       \<and> printed (run w a) = []
       \<and> exit_code (run w a) = 1
       \<and> diagnostics (run w a) \<noteq> []
       \<and> (\<forall>r \<in> set (requests (run w a)). req_method r = POST)"
proof -
  have "create_batch w c (JString P) (map JObject pre @ JObject kvs # post) [] proc0 =
          (Inl e, proc0\<lparr>sent := sent proc0 @ map (batch_call c (JString P)) pre
                                   @ [batch_call c (JString P) kvs]\<rparr>)"
    using assms(8,9) by (intro create_batch_stops) (simp_all add: proc0_def)
  moreover have "exit_status (Inl e) = 1"
    using assms(9) by (rule answer_error_exit)
  moreover have "uncaught (Inl e) \<noteq> []"
    using assms(9) by (rule answer_error_uncaught)
  ultimately show ?thesis
    using run_create_batch [OF assms(1-7)]
    by (auto simp: proc0_def batch_call_def)
qed

theorem batch_stops_at_first_failure_witness:
  "requests (run ex_world_400 ex_batch_args) =
     [batch_call ex_client (JString ''P'') [(''content'', JString ''A'')],
      batch_call ex_client (JString ''P'') [(''content'', JString ''B'')]]
   \<and> printed (run ex_world_400 ex_batch_args) = []
   \<and> exit_code (run ex_world_400 ex_batch_args) = 1"
  using batch_stops_at_first_failure [of ex_world_400 ex_client ex_batch_args "''P''" "''batch.json''"
      "[[(''content'', JString ''A'')]]" "[(''content'', JString ''B'')]"
      "[JObject [(''content'', JString ''C'')]]"
      "HTTPError \<lparr>status_code = 400, body = ''Bad Request''\<rparr>"]
  by (simp add: ex_world_400_def ex_world_def ex_client_def ex_batch_args_def ex_loads_def
        TodoistClient_init_def proc0_def load_tasks_from_file_def answer_def
        raise_for_status_def resp_json_def batch_call_def member_def)

text \<open>
  C5. In the \<open>create-batch\<close> branch a missing \<open>--project\<close> and a missing
  \<open>--file\<close> each raise \<open>SystemExit\<close> with their message, and a batch file whose JSON
  payload is not an array makes \<open>load_tasks_from_file\<close> raise the value error, which
  the branch propagates; in each case the process state is unchanged, and the whole run
  issues no request, prints nothing and exits with status 1.
\<close>

theorem create_batch_validation:
  assumes "command a = CreateBatch"
  shows "(project a = None \<longrightarrow>
            dispatch w c a p = (Inl (SystemExit ''create-batch requires --project''), p))
       \<and> (project a = Some P \<and> P \<noteq> [] \<and> file' a = None \<longrightarrow>
            dispatch w c a p = (Inl (SystemExit ''create-batch requires --file''), p))
       \<and> (files w path = File s \<and> json_loads w s = Some j \<and> (\<forall>xs. j \<noteq> JArray xs) \<longrightarrow>
            load_tasks_from_file w path = Inl (ValueError ''Batch payload must be a JSON array.'')
            \<and> (project a = Some P \<and> P \<noteq> [] \<and> file' a = Some path \<and> path \<noteq> [] \<longrightarrow>
                 dispatch w c a p = (Inl (ValueError ''Batch payload must be a JSON array.''), p)))
       \<and> (project a = None \<or> file' a = None
            \<or> (\<exists>path s j. file' a = Some path \<and> files w path = File s \<and> json_loads w s = Some j
                  \<and> (\<forall>xs. j \<noteq> JArray xs)) \<longrightarrow>
            requests (run w a) = [] \<and> printed (run w a) = [] \<and> exit_code (run w a) = 1)"
proof -
  have c1: "project a = None \<longrightarrow>
            dispatch w c a p = (Inl (SystemExit ''create-batch requires --project''), p)"
    using assms by (simp add: dispatch_def)
  have c2: "project a = Some P \<and> P \<noteq> [] \<and> file' a = None \<longrightarrow>
            dispatch w c a p = (Inl (SystemExit ''create-batch requires --file''), p)"
    using assms by (simp add: dispatch_def)
  have c3: "files w path = File s \<and> json_loads w s = Some j \<and> (\<forall>xs. j \<noteq> JArray xs) \<longrightarrow>
            load_tasks_from_file w path = Inl (ValueError ''Batch payload must be a JSON array.'')
            \<and> (project a = Some P \<and> P \<noteq> [] \<and> file' a = Some path \<and> path \<noteq> [] \<longrightarrow>
                 dispatch w c a p = (Inl (ValueError ''Batch payload must be a JSON array.''), p))"
    using assms by (auto simp: dispatch_def load_not_array)
  have c4: "project a = None \<or> file' a = None
            \<or> (\<exists>path s j. file' a = Some path \<and> files w path = File s \<and> json_loads w s = Some j
                  \<and> (\<forall>xs. j \<noteq> JArray xs)) \<longrightarrow>
            requests (run w a) = [] \<and> printed (run w a) = [] \<and> exit_code (run w a) = 1"
  proof
    assume h: "project a = None \<or> file' a = None
            \<or> (\<exists>path s j. file' a = Some path \<and> files w path = File s \<and> json_loads w s = Some j
                  \<and> (\<forall>xs. j \<noteq> JArray xs))"
    show "requests (run w a) = [] \<and> printed (run w a) = [] \<and> exit_code (run w a) = 1"
    proof (cases "isl (fst (TodoistClient_init w proc0))")
      case True
      then show ?thesis by (simp add: run_init_failure)
    next
      case False
      with init_cases [of w proc0] obtain c' where c': "TodoistClient_init w proc0 = (Inr c', proc0)"
        by auto
      from dispatch_batch_rejected [OF assms h, of c' proc0]
      obtain e where "dispatch w c' a proc0 = (Inl e, proc0)" "exit_status (Inl e) = 1"
        by blast
      with c' show ?thesis by (simp add: run_def main_def proc0_def)
    qed
  qed
  from c1 c2 c3 c4 show ?thesis by (intro conjI)
qed

theorem create_batch_validation_witness:
  "load_tasks_from_file ex_world ''obj.json'' = Inl (ValueError ''Batch payload must be a JSON array.'')
   \<and> dispatch ex_world ex_client ex_obj_args proc0 =
       (Inl (ValueError ''Batch payload must be a JSON array.''), proc0)
   \<and> dispatch ex_world ex_client (ex_batch_args\<lparr>project := None\<rparr>) proc0 =
       (Inl (SystemExit ''create-batch requires --project''), proc0)
   \<and> dispatch ex_world ex_client (ex_batch_args\<lparr>file' := None\<rparr>) proc0 =
       (Inl (SystemExit ''create-batch requires --file''), proc0)
   \<and> requests (run ex_world ex_obj_args) = []
   \<and> exit_code (run ex_world ex_obj_args) = 1"
  using create_batch_validation [where a = ex_obj_args and P = "''P''" and w = ex_world and c = ex_client
      and p = proc0 and path = "''obj.json''" and s = "''{}''" and j = "JObject []"]
    create_batch_validation [where a = "ex_batch_args\<lparr>project := None\<rparr>" and P = "''P''" and w = ex_world and c = ex_client
      and p = proc0 and path = "''obj.json''" and s = "''{}''" and j = "JObject []"]
    create_batch_validation [where a = "ex_batch_args\<lparr>file' := None\<rparr>" and P = "''P''" and w = ex_world and c = ex_client
      and p = proc0 and path = "''obj.json''" and s = "''{}''" and j = "JObject []"]
  by (simp add: ex_obj_args_def ex_batch_args_def ex_world_def ex_loads_def)

text \<open>
  C6 (as amended). Each of \<open>list_tasks\<close>, \<open>create_task\<close>, \<open>update_task\<close>,
  \<open>delete_task\<close> and \<open>complete_task\<close> issues exactly one request, and when the
  response to it has a status from 400 to 599 the operation raises the HTTP error that
  carries that response (status and body) instead of returning a result. Run from the
  command line, the uncaught error leaves standard output empty, prints a traceback and
  ends the process with status 1, after that single request.
\<close>

theorem error_status_raises:
  assumes "400 \<le> status_code r" and "status_code r < 600"
  shows "(\<exists>req. issued p (list_tasks w c pid p) = [req]
            \<and> (server w (sent p) req = Reply r \<longrightarrow> fst (list_tasks w c pid p) = Inl (HTTPError r)))
       \<and> (\<exists>req. issued p (create_task w c co pid l d p) = [req]
            \<and> (server w (sent p) req = Reply r \<longrightarrow> fst (create_task w c co pid l d p) = Inl (HTTPError r)))
       \<and> (\<exists>req. issued p (update_task w c tid l d p) = [req]
            \<and> (server w (sent p) req = Reply r \<longrightarrow> fst (update_task w c tid l d p) = Inl (HTTPError r)))
       \<and> (\<exists>req. issued p (delete_task w c tid p) = [req]
            \<and> (server w (sent p) req = Reply r \<longrightarrow> fst (delete_task w c tid p) = Inl (HTTPError r)))
       \<and> (\<exists>req. issued p (complete_task w c tid p) = [req]
            \<and> (server w (sent p) req = Reply r \<longrightarrow> fst (complete_task w c tid p) = Inl (HTTPError r)))
       \<and> (TodoistClient_init w proc0 = (Inr c, proc0) \<and> command a \<noteq> CreateBatch \<longrightarrow>
            (\<exists>req. requests (run w a) = [req]
               \<and> (server w [] req = Reply r \<longrightarrow>
                     printed (run w a) = [] \<and> exit_code (run w a) = 1
                     \<and> diagnostics (run w a) = [''Traceback (most recent call last):''])))"
proof (intro conjI)
  note [simp] = answer_http_error [OF assms] raise_for_status_error [OF assms]
  show "\<exists>req. issued p (list_tasks w c pid p) = [req]
            \<and> (server w (sent p) req = Reply r \<longrightarrow> fst (list_tasks w c pid p) = Inl (HTTPError r))"
    by (simp add: list_tasks_eq Let_def)
  show "\<exists>req. issued p (create_task w c co pid l d p) = [req]
            \<and> (server w (sent p) req = Reply r \<longrightarrow> fst (create_task w c co pid l d p) = Inl (HTTPError r))"
    by (simp add: create_task_eq Let_def)
  show "\<exists>req. issued p (update_task w c tid l d p) = [req]
            \<and> (server w (sent p) req = Reply r \<longrightarrow> fst (update_task w c tid l d p) = Inl (HTTPError r))"
    by (simp add: update_task_eq Let_def)
  show "\<exists>req. issued p (delete_task w c tid p) = [req]
            \<and> (server w (sent p) req = Reply r \<longrightarrow> fst (delete_task w c tid p) = Inl (HTTPError r))"
    by (simp add: delete_task_eq Let_def)
  show "\<exists>req. issued p (complete_task w c tid p) = [req]
            \<and> (server w (sent p) req = Reply r \<longrightarrow> fst (complete_task w c tid p) = Inl (HTTPError r))"
    by (simp add: complete_task_eq Let_def)
  show "TodoistClient_init w proc0 = (Inr c, proc0) \<and> command a \<noteq> CreateBatch \<longrightarrow>
            (\<exists>req. requests (run w a) = [req]
               \<and> (server w [] req = Reply r \<longrightarrow>
                     printed (run w a) = [] \<and> exit_code (run w a) = 1
                     \<and> diagnostics (run w a) = [''Traceback (most recent call last):'']))"
  proof
    assume h: "TodoistClient_init w proc0 = (Inr c, proc0) \<and> command a \<noteq> CreateBatch"
    show "\<exists>req. requests (run w a) = [req]
               \<and> (server w [] req = Reply r \<longrightarrow>
                     printed (run w a) = [] \<and> exit_code (run w a) = 1
                     \<and> diagnostics (run w a) = [''Traceback (most recent call last):''])"
    proof (cases "command a")
      case List
      with h show ?thesis
        by (cases "truthy (of_flag (project a))")
           (auto simp: run_def main_def dispatch_def list_tasks_eq Let_def proc0_def split: sum.splits)
    next
      case Create
      with h show ?thesis
        by (cases "truthy (of_flag (project a))")
           (auto simp: run_def main_def dispatch_def create_task_eq Let_def proc0_def split: sum.splits)
    next
      case CreateBatch
      with h show ?thesis by simp
    next
      case Delete
      with h show ?thesis
        by (auto simp: run_def main_def dispatch_def delete_task_eq Let_def proc0_def
                 split: sum.splits reply.splits)
    next
      case Complete
      with h show ?thesis
        by (auto simp: run_def main_def dispatch_def complete_task_eq Let_def proc0_def
                 split: sum.splits reply.splits)
    next
      case Update
      with h show ?thesis
        by (cases "truthy (of_flag (project a))")
           (auto simp: run_def main_def dispatch_def update_task_eq Let_def proc0_def split: sum.splits)
    qed
  qed
qed

theorem error_status_raises_witness:
  "fst (delete_task ex_world_500 ex_client (Some ''7'') proc0) =
     Inl (HTTPError \<lparr>status_code = 500, body = ''oops''\<rparr>)
   \<and> length (issued proc0 (delete_task ex_world_500 ex_client (Some ''7'') proc0)) = 1
   \<and> exit_code (run ex_world_500 ex_args) = 1
   \<and> printed (run ex_world_500 ex_args) = []"
  using error_status_raises [of "\<lparr>status_code = 500, body = ''oops''\<rparr>" proc0 ex_world_500
      ex_client JNull JNull JNull JNull "Some ''7''" ex_args]
  by (auto simp: ex_world_500_def ex_world_def ex_args_def ex_client_def TodoistClient_init_def
        proc0_def)

text \<open>
  C6 as stated fails for a status that is neither 2xx nor an error class: on a 304
  response \<open>delete_task\<close> returns \<open>True\<close>, the confirmation line is printed and the
  exit status is 0.
\<close>

theorem error_status_raises_counterexample:
  "fst (delete_task ex_world_304 ex_client (Some ''7'') proc0) = Inr True
   \<and> printed (run ex_world_304 ex_args) = [Line ''Deleted 7'']
   \<and> exit_code (run ex_world_304 ex_args) = 0"
  by (simp add: run_def main_def dispatch_def delete_task_eq Let_def ex_world_304_def ex_world_def
        ex_args_def ex_client_def TodoistClient_init_def proc0_def raise_for_status_def)

text \<open>
  C7. \<open>create_task("Buy milk", "proj1")\<close> with no labels and no description issues one
  \<open>POST /tasks\<close> whose JSON body is exactly the content and the project: no
  \<open>labels\<close> key and no \<open>description\<close> key.
\<close>

theorem create_task_buy_milk:
  "issued p (create_task w c (JString ''Buy milk'') (JString ''proj1'') JNull JNull p) =
     [\<lparr>req_method = POST, req_url = api_url c @ ''/tasks'', req_headers = headers c,
       req_params = [],
       req_json = Some [(''content'', JString ''Buy milk''), (''project_id'', JString ''proj1'')]\<rparr>]"
  by (simp add: issued_def create_task_eq Let_def)

theorem create_task_buy_milk_witness:
  "map req_json
     (issued proc0 (create_task ex_world ex_client (JString ''Buy milk'') (JString ''proj1'')
        JNull JNull proc0)) =
     [Some [(''content'', JString ''Buy milk''), (''project_id'', JString ''proj1'')]]"
  using create_task_buy_milk [of proc0 ex_world ex_client] by simp

text \<open>
  C8. \<open>update_task("t1", labels=["a","b"])\<close> with no description issues one
  \<open>POST /tasks/t1\<close> whose JSON body is exactly the labels: no \<open>description\<close> key.
\<close>

theorem update_task_labels_only:
  "issued p (update_task w c (Some ''t1'') (JArray [JString ''a'', JString ''b'']) JNull p) =
     [\<lparr>req_method = POST, req_url = api_url c @ ''/tasks/t1'', req_headers = headers c,
       req_params = [],
       req_json = Some [(''labels'', JArray [JString ''a'', JString ''b''])]\<rparr>]"
  by (simp add: issued_def update_task_def send_eq Let_def split: sum.split reply.split)

theorem update_task_labels_only_witness:
  "map req_json
     (issued proc0 (update_task ex_world ex_client (Some ''t1'')
        (JArray [JString ''a'', JString ''b'']) JNull proc0)) =
     [Some [(''labels'', JArray [JString ''a'', JString ''b''])]]"
  using update_task_labels_only [of proc0 ex_world ex_client] by simp

text \<open>
  C9. \<open>list_tasks()\<close> with no project filter issues one \<open>GET /tasks\<close> whose query
  parameters are empty: there is no \<open>project_id\<close> parameter at all.
\<close>

theorem list_tasks_no_filter:
  "issued p (list_tasks w c JNull p) =
     [\<lparr>req_method = GET, req_url = api_url c @ ''/tasks'', req_headers = headers c,
       req_params = [], req_json = None\<rparr>]"
  by (simp add: issued_def list_tasks_def send_eq Let_def split: sum.split reply.split)

theorem list_tasks_no_filter_witness:
  "map (\<lambda>r. map_of (req_params r) ''project_id'')
     (issued proc0 (list_tasks ex_world ex_client JNull proc0)) = [None]"
  using list_tasks_no_filter [of proc0 ex_world ex_client] by simp

text \<open>
  C10. In the \<open>create\<close> branch the \<open>--description\<close> flag has no effect: changing it
  changes nothing of the run (the same requests, output, diagnostics and exit status),
  and no request issued has a \<open>description\<close> key in its body.
\<close>

theorem cli_create_ignores_description:
  assumes "command a = Create"
  shows "run w (a\<lparr>description := d\<rparr>) = run w a
       \<and> (\<forall>r \<in> set (requests (run w a)).
            \<forall>data. req_json r = Some data \<longrightarrow> map_of data ''description'' = None)"
proof
  have "dispatch w c (a\<lparr>description := d\<rparr>) p = dispatch w c a p" for c p
    using assms by (simp add: dispatch_def)
  then show "run w (a\<lparr>description := d\<rparr>) = run w a"
    by (simp add: run_def main_def split: prod.split sum.split)
  show "\<forall>r \<in> set (requests (run w a)).
            \<forall>data. req_json r = Some data \<longrightarrow> map_of data ''description'' = None"
  proof (cases "isl (fst (TodoistClient_init w proc0))")
    case True
    then show ?thesis by (simp add: run_init_failure)
  next
    case False
    with init_cases [of w proc0] obtain c where "TodoistClient_init w proc0 = (Inr c, proc0)"
      by auto
    with assms show ?thesis
      by (auto simp: run_def main_def dispatch_def create_task_eq Let_def proc0_def
               split: sum.splits)
  qed
qed

theorem cli_create_ignores_description_witness:
  "run ex_world (ex_create_args\<lparr>description := None\<rparr>) = run ex_world ex_create_args
   \<and> map req_json (requests (run ex_world ex_create_args)) =
       [Some [(''content'', JString ''Buy milk''), (''project_id'', JString ''P''),
              (''labels'', JArray [JString ''a'', JString ''b''])]]"
  using cli_create_ignores_description [of ex_create_args ex_world None]
  by (simp add: ex_create_args_def run_def main_def dispatch_def create_task_eq Let_def proc0_def
        ex_world_def TodoistClient_init_def labels_arg_def answer_def raise_for_status_def
        resp_json_def ex_loads_def)

end
